theory Spec2Isabelle
  imports Complex_Main "HOL-Library.Char_ord" "HOL-Library.List_Lexorder"
    "HOL-Library.Product_Lexorder"
begin

section \<open>Numbers and errors of the dashboard's arithmetic\<close>

text \<open>
  The KPI code of \<^verbatim>\<open>app.py\<close> computes with Python and numpy floating point numbers.
  A finite float is the real number it denotes, and the arithmetic of the KPIs is
  idealised as exact (no rounding, no overflow). The one place where the rounding of a
  float operation decides a printed digit, the quotient in \<^verbatim>\<open>format_currency\<close>, rounds
  as a double does (see \<open>float_round\<close> below). The one special value the code produces
  itself, the NaN that pandas returns for the mean of no values, is kept as a value of
  its own. Infinities and the negative zero are not modelled.
\<close>

datatype number = Num real | NaN

text \<open>
  Python's division raises \<^verbatim>\<open>ZeroDivisionError\<close> on a zero divisor. (numpy scalars
  return inf or nan with a warning instead; the raising reading is the stricter one, so
  a result \<open>Inr\<close> below means no exception under either.)
\<close>

datatype pyerror = ZeroDivisionError

text \<open>\<^verbatim>\<open>a == b\<close>: NaN is equal to nothing, itself included.\<close>

fun num_eq :: "number \<Rightarrow> number \<Rightarrow> bool" where
  "num_eq (Num x) (Num y) = (x = y)"
| "num_eq _ _ = False"

text \<open>\<^verbatim>\<open>a >= b\<close>: every comparison with NaN is false.\<close>

fun num_ge :: "number \<Rightarrow> number \<Rightarrow> bool" where
  "num_ge (Num x) (Num y) = (y \<le> x)"
| "num_ge _ _ = False"

text \<open>\<^verbatim>\<open>a - b\<close> and \<^verbatim>\<open>a * b\<close>: NaN propagates.\<close>

fun num_sub :: "number \<Rightarrow> number \<Rightarrow> number" where
  "num_sub (Num x) (Num y) = Num (x - y)"
| "num_sub _ _ = NaN"

fun num_mul :: "number \<Rightarrow> number \<Rightarrow> number" where
  "num_mul (Num x) (Num y) = Num (x * y)"
| "num_mul _ _ = NaN"

text \<open>\<^verbatim>\<open>a / b\<close>: a zero divisor raises, whatever the dividend; otherwise NaN propagates.\<close>

fun num_truediv :: "number \<Rightarrow> number \<Rightarrow> pyerror + number" where
  "num_truediv a (Num y) =
     (if y = 0 then Inl ZeroDivisionError
      else (case a of Num x \<Rightarrow> Inr (Num (x / y)) | NaN \<Rightarrow> Inr NaN))"
| "num_truediv a NaN = Inr NaN"

section \<open>Trend percentage\<close>

text \<open>
  \<^verbatim>\<open>
  def calculate_trend_percentage(current_value, previous_value):
      if previous_value == 0:
          return 0
      return ((current_value - previous_value) / previous_value) * 100
  \<close>
\<close>

definition calculate_trend_percentage :: "number \<Rightarrow> number \<Rightarrow> pyerror + number" where
  "calculate_trend_percentage current_value previous_value =
     (if num_eq previous_value (Num 0) then Inr (Num 0)
      else (case num_truediv (num_sub current_value previous_value) previous_value of
              Inl e \<Rightarrow> Inl e
            | Inr q \<Rightarrow> Inr (num_mul q (Num 100))))"

section \<open>The sales fact table\<close>

text \<open>
  \<^verbatim>\<open>main\<close> works on a pandas DataFrame, \<^verbatim>\<open>current_data\<close>, with one row per order
  item. A row is a record of the columns the code reads; a nullable column (NaN or None
  in pandas) is an \<open>option\<close>. Only the year, month and day of a purchase timestamp and
  the time within the day are kept.
\<close>

record timestamp =
  ts_year :: int
  ts_month :: nat
  ts_day :: nat
  ts_seconds :: nat

record sales_fact_row =
  order_id :: string
  order_purchase_timestamp :: timestamp
  price :: real
  product_category_name :: "string option"
  customer_state :: "string option"
  delivery_days :: "real option"
  review_score :: "real option"

section \<open>The pandas operations the code calls\<close>

text \<open>The non-null entries of a column, in order.\<close>

fun dropna :: "'a option list \<Rightarrow> 'a list" where
  "dropna [] = []"
| "dropna (None # xs) = dropna xs"
| "dropna (Some x # xs) = x # dropna xs"

text \<open>\<^verbatim>\<open>Series.sum()\<close> of a column without nulls: 0 for the empty column.\<close>

definition series_sum :: "real list \<Rightarrow> real" where
  "series_sum xs = sum_list xs"

text \<open>\<^verbatim>\<open>Series.nunique()\<close>: the number of distinct values.\<close>

definition series_nunique :: "'a list \<Rightarrow> nat" where
  "series_nunique xs = length (remdups xs)"

text \<open>
  \<^verbatim>\<open>Series.mean()\<close> skips the nulls (\<^verbatim>\<open>skipna=True\<close>) and is NaN when nothing is left.
\<close>

definition series_mean :: "real option list \<Rightarrow> number" where
  "series_mean xs =
     (let ys = dropna xs
      in if ys = [] then NaN else Num (sum_list ys / real (length ys)))"

text \<open>
  \<^verbatim>\<open>groupby(key)\<close> with its defaults \<^verbatim>\<open>sort=True, dropna=True\<close>: one group per
  distinct non-null key, the groups in ascending key order.
\<close>

definition group_keys :: "('r \<Rightarrow> 'k::linorder option) \<Rightarrow> 'r list \<Rightarrow> 'k list" where
  "group_keys key rows = sort (remdups (dropna (map key rows)))"

definition group_rows :: "('r \<Rightarrow> 'k option) \<Rightarrow> 'r list \<Rightarrow> 'k \<Rightarrow> 'r list" where
  "group_rows key rows k = filter (\<lambda>r. key r = Some k) rows"

definition groupby_sum ::
  "('r \<Rightarrow> 'k::linorder option) \<Rightarrow> ('r \<Rightarrow> real) \<Rightarrow> 'r list \<Rightarrow> ('k \<times> real) list" where
  "groupby_sum key col rows =
     map (\<lambda>k. (k, series_sum (map col (group_rows key rows k)))) (group_keys key rows)"

definition groupby_mean ::
  "('r \<Rightarrow> 'k::linorder option) \<Rightarrow> ('r \<Rightarrow> real option) \<Rightarrow> 'r list \<Rightarrow> ('k \<times> number) list" where
  "groupby_mean key col rows =
     map (\<lambda>k. (k, series_mean (map col (group_rows key rows k)))) (group_keys key rows)"

text \<open>
  \<^verbatim>\<open>sort_values(ascending=False)\<close> on a Series without NaN: the entries in
  non-increasing order of their values. The order pandas leaves equal values in is not
  fixed (its default sort kind, numpy's quicksort, is not stable, and the handling of
  the descending case differs between versions); the model keeps equal values in their
  given order (\<open>sort_key\<close> is a stable insertion sort). It may therefore differ from
  the code in the order of equal values, and in which of several equal values
  \<^verbatim>\<open>head\<close> keeps; no statement below depends on either.
\<close>

definition sort_values_desc :: "('k \<times> real) list \<Rightarrow> ('k \<times> real) list" where
  "sort_values_desc xs = sort_key (\<lambda>kv. - snd kv) xs"

text \<open>\<^verbatim>\<open>head(n)\<close> for \<open>n \<ge> 0\<close>: the first \<open>n\<close> entries.\<close>

definition head :: "nat \<Rightarrow> 'a list \<Rightarrow> 'a list" where
  "head n xs = take n xs"

text \<open>
  \<^verbatim>\<open>pd.Categorical(values, categories=cats, ordered=True)\<close> gives each value the
  position of its category as code; a value outside the categories becomes NaN, which
  \<^verbatim>\<open>sort_values\<close> puts last: its code here is \<open>length cats\<close>.
\<close>

fun category_code :: "string list \<Rightarrow> string \<Rightarrow> nat" where
  "category_code [] b = 0"
| "category_code (c # cs) b = (if b = c then 0 else Suc (category_code cs b))"

definition sort_values_categorical :: "string list \<Rightarrow> (string \<times> 'v) list \<Rightarrow> (string \<times> 'v) list" where
  "sort_values_categorical cats xs = sort_key (\<lambda>kv. category_code cats (fst kv)) xs"

text \<open>
  \<^verbatim>\<open>dt.to_period('M')\<close>: the calendar month of a timestamp, as the pair of its year
  and month. \<open>groupby\<close> sorts such pairs lexicographically; \<open>period_before\<close> is the
  chronological order, written out.
\<close>

type_synonym period = "int \<times> nat"

definition to_period_M :: "timestamp \<Rightarrow> period" where
  "to_period_M t = (ts_year t, ts_month t)"

definition period_before :: "period \<Rightarrow> period \<Rightarrow> bool" where
  "period_before p q = (fst p < fst q \<or> (fst p = fst q \<and> snd p < snd q))"

section \<open>Delivery speed buckets\<close>

text \<open>
  Modelled from the spec: \<^verbatim>\<open>categorize_delivery_speed\<close> is imported from
  \<^verbatim>\<open>data_loader\<close>, which is not among the sources. The spec gives its rules: null
  is "Unknown", at most 3 days is "1-3 days", more than 3 and at most 7 is "4-7 days",
  more than 7 is "8+ days".
\<close>

definition categorize_delivery_speed :: "real option \<Rightarrow> string" where
  "categorize_delivery_speed days =
     (case days of
        None \<Rightarrow> ''Unknown''
      | Some d \<Rightarrow> if d \<le> 3 then ''1-3 days'' else if d \<le> 7 then ''4-7 days'' else ''8+ days'')"

text \<open>
  \<^verbatim>\<open>bucket_order = ['1-3 days', '4-7 days', '8+ days', 'Unknown']\<close>, the order of
  increasing severity; the severity of a bucket is its position there.
\<close>

definition bucket_order :: "string list" where
  "bucket_order = [''1-3 days'', ''4-7 days'', ''8+ days'', ''Unknown'']"

definition severity :: "string \<Rightarrow> nat" where
  "severity b = category_code bucket_order b"

section \<open>The KPIs of \<^verbatim>\<open>main\<close>\<close>

text \<open>
  \<^verbatim>\<open>
  current_revenue = current_data['price'].sum()
  current_orders = current_data['order_id'].nunique()
  current_aov = current_revenue / current_orders if current_orders > 0 else 0
  \<close>
\<close>

definition current_revenue :: "sales_fact_row list \<Rightarrow> real" where
  "current_revenue current_data = series_sum (map price current_data)"

definition current_orders :: "sales_fact_row list \<Rightarrow> nat" where
  "current_orders current_data = series_nunique (map order_id current_data)"

definition current_aov :: "sales_fact_row list \<Rightarrow> pyerror + number" where
  "current_aov current_data =
     (if current_orders current_data > 0
      then num_truediv (Num (current_revenue current_data)) (Num (real (current_orders current_data)))
      else Inr (Num 0))"

text \<open>
  \<^verbatim>\<open>
  previous_revenue = previous_data['price'].sum() if len(previous_data) > 0 else 0
  previous_orders = previous_data['order_id'].nunique() if len(previous_data) > 0 else 0
  previous_aov = previous_revenue / previous_orders if previous_orders > 0 else 0
  \<close>
\<close>

definition previous_revenue :: "sales_fact_row list \<Rightarrow> real" where
  "previous_revenue previous_data =
     (if length previous_data > 0 then series_sum (map price previous_data) else 0)"

definition previous_orders :: "sales_fact_row list \<Rightarrow> nat" where
  "previous_orders previous_data =
     (if length previous_data > 0 then series_nunique (map order_id previous_data) else 0)"

definition previous_aov :: "sales_fact_row list \<Rightarrow> pyerror + number" where
  "previous_aov previous_data =
     (if previous_orders previous_data > 0
      then num_truediv (Num (previous_revenue previous_data))
             (Num (real (previous_orders previous_data)))
      else Inr (Num 0))"

text \<open>
  \<^verbatim>\<open>
  current_monthly = current_data.groupby(
      current_data['order_purchase_timestamp'].dt.to_period('M')
  )['price'].sum().reset_index()
  \<close>
  The two columns added afterwards (the month as a string, and a constant label) are
  for the chart and are left out.
\<close>

definition current_monthly :: "sales_fact_row list \<Rightarrow> (period \<times> real) list" where
  "current_monthly current_data =
     groupby_sum (\<lambda>r. Some (to_period_M (order_purchase_timestamp r))) price current_data"

text \<open>
  \<^verbatim>\<open>
  category_revenue = current_data.groupby('product_category_name')['price'].sum()
                                 .sort_values(ascending=False).head(10)
  \<close>
  \<open>category_ranking\<close> is this expression with the 10 as a parameter.
\<close>

definition category_ranking :: "nat \<Rightarrow> sales_fact_row list \<Rightarrow> (string \<times> real) list" where
  "category_ranking top_n current_data =
     head top_n (sort_values_desc (groupby_sum product_category_name price current_data))"

definition category_revenue :: "sales_fact_row list \<Rightarrow> (string \<times> real) list" where
  "category_revenue current_data = category_ranking 10 current_data"

text \<open>
  \<^verbatim>\<open>
  current_data_copy['delivery_bucket'] =
      current_data_copy['delivery_days'].apply(categorize_delivery_speed)
  satisfaction_delivery =
      current_data_copy.groupby('delivery_bucket')['review_score'].mean().reset_index()
  bucket_order = ['1-3 days', '4-7 days', '8+ days', 'Unknown']
  satisfaction_delivery['delivery_bucket'] = pd.Categorical(
      satisfaction_delivery['delivery_bucket'], categories=bucket_order, ordered=True)
  satisfaction_delivery = satisfaction_delivery.sort_values('delivery_bucket')
  \<close>
\<close>

definition delivery_bucket :: "sales_fact_row \<Rightarrow> string" where
  "delivery_bucket r = categorize_delivery_speed (delivery_days r)"

definition satisfaction_delivery :: "sales_fact_row list \<Rightarrow> (string \<times> number) list" where
  "satisfaction_delivery current_data =
     sort_values_categorical bucket_order
       (groupby_mean (\<lambda>r. Some (delivery_bucket r)) review_score current_data)"

text \<open>
  \<^verbatim>\<open>
  current_delivery = current_data['delivery_days'].mean()
  previous_delivery = previous_data['delivery_days'].mean()
      if len(previous_data) > 0 and 'delivery_days' in previous_data.columns
      else current_delivery
  delivery_trend = calculate_trend_percentage(current_delivery, previous_delivery)
  \<close>
\<close>

definition current_delivery :: "sales_fact_row list \<Rightarrow> number" where
  "current_delivery current_data = series_mean (map delivery_days current_data)"

definition previous_delivery :: "sales_fact_row list \<Rightarrow> sales_fact_row list \<Rightarrow> number" where
  "previous_delivery current_data previous_data =
     (if length previous_data > 0 then series_mean (map delivery_days previous_data)
      else current_delivery current_data)"

definition delivery_trend :: "sales_fact_row list \<Rightarrow> sales_fact_row list \<Rightarrow> pyerror + number" where
  "delivery_trend current_data previous_data =
     calculate_trend_percentage (current_delivery current_data)
       (previous_delivery current_data previous_data)"

section \<open>Currency formatting\<close>

text \<open>
  Python's \<^verbatim>\<open>format(x, '.0f')\<close> and \<^verbatim>\<open>format(x, '.1f')\<close> round the exact value of
  \<open>x\<close> to the nearest number with that many decimals, a tie going to the even last
  digit, and keep the sign of a negative \<open>x\<close> even when the digits are all 0; NaN
  prints as \<^verbatim>\<open>nan\<close>.
\<close>

definition round_half_even :: "real \<Rightarrow> int" where
  "round_half_even x =
     (let f = \<lfloor>x\<rfloor>; d = x - of_int f
      in if d < 1 / 2 then f else if 1 / 2 < d then f + 1 else if even f then f else f + 1)"

definition digit_char :: "nat \<Rightarrow> char" where
  "digit_char d = ''0123456789'' ! d"

fun str_nat :: "nat \<Rightarrow> string" where
  "str_nat n = (if n < 10 then [digit_char n] else str_nat (n div 10) @ [digit_char (n mod 10)])"

declare str_nat.simps [simp del]

definition zfill :: "nat \<Rightarrow> string \<Rightarrow> string" where
  "zfill w s = replicate (w - length s) CHR ''0'' @ s"

definition format_fixed :: "nat \<Rightarrow> real \<Rightarrow> string" where
  "format_fixed p x =
     (let n = nat (round_half_even (\<bar>x\<bar> * 10 ^ p));
          whole = str_nat (n div 10 ^ p);
          frac = (if p = 0 then [] else ''.'' @ zfill p (str_nat (n mod 10 ^ p)))
      in (if x < 0 then ''-'' else []) @ whole @ frac)"

fun format_f :: "nat \<Rightarrow> number \<Rightarrow> string" where
  "format_f p (Num x) = format_fixed p x"
| "format_f p NaN = ''nan''"

text \<open>
  The quotients \<^verbatim>\<open>value/1000000\<close> and \<^verbatim>\<open>value/1000\<close> are doubles: IEEE 754
  division gives the double nearest to the exact quotient, a tie going to the even
  significand. A double other than 0 is \<open>m * 2 ^ (e - 52)\<close> with an integer \<open>m\<close> of 53
  bits, where \<open>2 ^ e\<close> is the largest power of two not above its magnitude.
  \<open>float_round\<close> rounds a real to this grid. The range of the exponent is not bounded
  here (no overflow to infinity, no subnormal numbers): in \<^verbatim>\<open>format_currency\<close> the
  quotient is at least 1 and smaller than the value, so neither can happen there.

  \<open>up_exp x\<close> is the \<open>e\<close> with \<open>2 ^ e \<le> x < 2 ^ (e + 1)\<close> for \<open>x \<ge> 1\<close>, and
  \<open>down_exp x\<close> the \<open>k\<close> with \<open>1 \<le> x * 2 ^ k < 2\<close> for \<open>0 < x < 1\<close>.
\<close>

function up_exp :: "real \<Rightarrow> nat" where
  "up_exp x = (if x < 2 then 0 else Suc (up_exp (x / 2)))"
  by pat_completeness auto
termination
proof (relation "measure (\<lambda>x. nat \<lfloor>x\<rfloor>)")
  show "wf (measure (\<lambda>x::real. nat \<lfloor>x\<rfloor>))" by simp
next
  fix x :: real
  assume "\<not> x < 2"
  then have "\<lfloor>x / 2\<rfloor> < \<lfloor>x\<rfloor>" and "0 < \<lfloor>x\<rfloor>" by linarith+
  then show "(x / 2, x) \<in> measure (\<lambda>x. nat \<lfloor>x\<rfloor>)" by simp
qed

function down_exp :: "real \<Rightarrow> nat" where
  "down_exp x = (if x \<le> 0 \<or> 1 \<le> x then 0 else Suc (down_exp (2 * x)))"
  by pat_completeness auto
termination
proof (relation "measure (\<lambda>x. nat \<lfloor>1 / x\<rfloor>)")
  show "wf (measure (\<lambda>x::real. nat \<lfloor>1 / x\<rfloor>))" by simp
next
  fix x :: real
  assume "\<not> (x \<le> 0 \<or> 1 \<le> x)"
  then have x: "0 < x" "x < 1" by simp_all
  define y where "y = 1 / x"
  from x have y: "1 < y" by (simp add: y_def)
  have "\<lfloor>y / 2\<rfloor> < \<lfloor>y\<rfloor>"
  proof (cases "y < 2")
    case True
    with y have "\<lfloor>y / 2\<rfloor> = 0" by (simp add: floor_eq_iff)
    moreover from y have "1 \<le> \<lfloor>y\<rfloor>" by simp
    ultimately show ?thesis by simp
  next
    case False
    then show ?thesis by linarith
  qed
  moreover from y have "0 < \<lfloor>y\<rfloor>" by simp
  ultimately show "(2 * x, x) \<in> measure (\<lambda>x. nat \<lfloor>1 / x\<rfloor>)"
    by (simp add: y_def mult.commute)
qed

declare up_exp.simps [simp del]

declare down_exp.simps [simp del]

definition float_exponent :: "real \<Rightarrow> int" where
  "float_exponent x = (if 1 \<le> \<bar>x\<bar> then int (up_exp \<bar>x\<bar>) else - int (down_exp \<bar>x\<bar>))"

definition pow2 :: "int \<Rightarrow> real" where
  "pow2 k = (if 0 \<le> k then 2 ^ nat k else 1 / 2 ^ nat (- k))"

definition float_round :: "real \<Rightarrow> real" where
  "float_round x =
     (if x = 0 then 0
      else let ulp = pow2 (float_exponent x) / 2 ^ 52
           in real_of_int (round_half_even (x / ulp)) * ulp)"

text \<open>\<^verbatim>\<open>a / b\<close> as a double: as \<open>num_truediv\<close>, with the quotient rounded.\<close>

fun float_truediv :: "number \<Rightarrow> number \<Rightarrow> pyerror + number" where
  "float_truediv a (Num y) =
     (if y = 0 then Inl ZeroDivisionError
      else (case a of Num x \<Rightarrow> Inr (Num (float_round (x / y))) | NaN \<Rightarrow> Inr NaN))"
| "float_truediv a NaN = Inr NaN"

text \<open>
  \<^verbatim>\<open>
  def format_currency(value):
      if value >= 1000000:
          return f"${value/1000000:.1f}M"
      elif value >= 1000:
          return f"${value/1000:.0f}K"
      else:
          return f"${value:.0f}"
  \<close>
\<close>

definition format_currency :: "number \<Rightarrow> pyerror + string" where
  "format_currency v =
     (if num_ge v (Num 1000000) then
        (case float_truediv v (Num 1000000) of
           Inl e \<Rightarrow> Inl e
         | Inr q \<Rightarrow> Inr (''$'' @ format_f 1 q @ ''M''))
      else if num_ge v (Num 1000) then
        (case float_truediv v (Num 1000) of
           Inl e \<Rightarrow> Inl e
         | Inr q \<Rightarrow> Inr (''$'' @ format_f 0 q @ ''K''))
      else Inr (''$'' @ format_f 0 v))"

section \<open>Example inputs\<close>

text \<open>A fact row with the given order, purchase month, price, category, delivery days
  and review score (first of the month, midnight, no customer state).\<close>

definition fact_row ::
  "string \<Rightarrow> int \<Rightarrow> nat \<Rightarrow> real \<Rightarrow> string option \<Rightarrow> real option \<Rightarrow> real option \<Rightarrow> sales_fact_row" where
  "fact_row oid y m p c d s =
     \<lparr>order_id = oid,
      order_purchase_timestamp = \<lparr>ts_year = y, ts_month = m, ts_day = 1, ts_seconds = 0\<rparr>,
      price = p, product_category_name = c, customer_state = None,
      delivery_days = d, review_score = s\<rparr>"

text \<open>Scenario A of the spec: prices 10, 20, 30 in the categories A, B, A.\<close>

definition scenario_A :: "sales_fact_row list" where
  "scenario_A =
     [fact_row ''o1'' 2018 1 10 (Some ''A'') None None,
      fact_row ''o2'' 2018 1 20 (Some ''B'') None None,
      fact_row ''o3'' 2018 1 30 (Some ''A'') None None]"

text \<open>Scenario B of the spec: delivery days 1, 5, 10 and null.\<close>

definition scenario_B :: "sales_fact_row list" where
  "scenario_B =
     [fact_row ''o1'' 2018 1 10 None (Some 1) None,
      fact_row ''o2'' 2018 1 10 None (Some 5) None,
      fact_row ''o3'' 2018 1 10 None (Some 10) None,
      fact_row ''o4'' 2018 1 10 None None None]"

text \<open>Items bought in December 2017, January 2018 and March 2018, out of order.\<close>

definition monthly_rows :: "sales_fact_row list" where
  "monthly_rows =
     [fact_row ''o1'' 2018 3 20 None None None,
      fact_row ''o2'' 2017 12 5 None None None,
      fact_row ''o3'' 2018 1 10 None None None,
      fact_row ''o4'' 2018 3 30 None None None]"

text \<open>Items of three delivery buckets; the one of the "1-3 days" bucket has no review.\<close>

definition satisfaction_rows :: "sales_fact_row list" where
  "satisfaction_rows =
     [fact_row ''o1'' 2018 1 10 None (Some 9) (Some 5),
      fact_row ''o2'' 2018 1 10 None None (Some 4),
      fact_row ''o3'' 2018 1 10 None (Some 1) None,
      fact_row ''o4'' 2018 1 10 None (Some 8) (Some 2)]"

lemmas scenario_defs = scenario_A_def scenario_B_def fact_row_def

section \<open>Lemmas on the pandas operations\<close>

lemma set_dropna: "set (dropna xs) = {x. Some x \<in> set xs}"
  by (induction xs rule: dropna.induct) auto

lemma dropna_map_Some: "dropna (map (\<lambda>r. Some (f r)) rows) = map f rows"
  by (induction rows) simp_all

lemma dropna_the: "dropna xs = map the (filter (\<lambda>x. x \<noteq> None) xs)"
  by (induction xs rule: dropna.induct) simp_all

lemma set_group_keys: "set (group_keys key rows) = {k. \<exists>r \<in> set rows. key r = Some k}"
  by (force simp: group_keys_def set_dropna)

lemma sorted_group_keys: "sorted (group_keys key rows)"
  by (simp add: group_keys_def)

lemma distinct_group_keys: "distinct (group_keys key rows)"
  by (simp add: group_keys_def)

lemma groupby_sum_keys: "map fst (groupby_sum key col rows) = group_keys key rows"
  by (simp add: groupby_sum_def comp_def)

lemma groupby_sum_entry:
  "(k, v) \<in> set (groupby_sum key col rows) \<Longrightarrow>
     v = sum_list (map col (filter (\<lambda>r. key r = Some k) rows))"
  by (auto simp: groupby_sum_def group_rows_def series_sum_def)

lemma groupby_mean_keys: "map fst (groupby_mean key col rows) = group_keys key rows"
  by (simp add: groupby_mean_def comp_def)

lemma sorted_period_before:
  assumes "sorted ps" and "distinct ps"
  shows "sorted_wrt period_before ps"
proof -
  from assms have "sorted_wrt (<) ps"
    by (simp add: strict_sorted_iff)
  moreover have "period_before p q" if "p < q" for p q :: period
    using that by (auto simp: period_before_def less_prod_def)
  ultimately show ?thesis
    by (rule sorted_wrt_mono_rel [rotated]) simp
qed

lemma set_sort_values_desc: "set (sort_values_desc xs) = set xs"
  by (simp add: sort_values_desc_def)

lemma sorted_sort_values_desc: "sorted_wrt (\<lambda>a b. snd b \<le> snd a) (sort_values_desc xs)"
proof -
  have "sorted (map (\<lambda>kv. - snd kv) (sort_values_desc xs))"
    by (simp add: sort_values_desc_def)
  then show ?thesis
    by (simp add: sorted_map sorted_wrt_iff_nth_less)
qed

lemma distinct_map_insort_key:
  "distinct (map g (insort_key f x xs)) = (g x \<notin> g ` set xs \<and> distinct (map g xs))"
  by (induction xs) (auto simp: set_insort_key)

lemma distinct_map_sort_key: "distinct (map g (sort_key f xs)) = distinct (map g xs)"
  by (induction xs) (simp_all add: distinct_map_insort_key)

lemma distinct_sort_values_desc:
  "distinct (map fst (sort_values_desc xs)) = distinct (map fst xs)"
  by (simp add: sort_values_desc_def distinct_map_sort_key)

lemma length_head: "length (head n xs) \<le> n"
  by (simp add: head_def)

lemma set_head: "set (head n xs) \<subseteq> set xs"
  by (simp add: head_def set_take_subset)

lemma head_all: "length xs \<le> n \<Longrightarrow> head n xs = xs"
  by (simp add: head_def)

lemma sorted_wrt_head: "sorted_wrt P xs \<Longrightarrow> sorted_wrt P (head n xs)"
  by (simp add: head_def sorted_wrt_take)

lemma distinct_map_head: "distinct (map f xs) \<Longrightarrow> distinct (map f (head n xs))"
  by (simp add: head_def take_map [symmetric])

lemma head_rest:
  assumes "sorted_wrt P xs" "x \<in> set (head n xs)" "y \<in> set xs" "y \<notin> set (head n xs)"
  shows "P x y"
proof -
  have split: "xs = take n xs @ drop n xs" by simp
  from assms(3,4) have "y \<in> set (drop n xs)"
    by (metis Un_iff append_take_drop_id head_def set_append)
  moreover from assms(1) have "\<forall>a \<in> set (take n xs). \<forall>b \<in> set (drop n xs). P a b"
    by (metis append_take_drop_id sorted_wrt_append)
  ultimately show ?thesis using assms(2) by (simp add: head_def)
qed

lemma length_groupby_sum:
  "length (groupby_sum key col rows) = card {k. \<exists>r \<in> set rows. key r = Some k}"
  using distinct_card [OF distinct_group_keys [of key rows]]
  by (simp add: groupby_sum_def set_group_keys)

lemma series_mean_eq:
  "series_mean xs =
     (let ys = map the (filter (\<lambda>x. x \<noteq> None) xs)
      in if ys = [] then NaN else Num (sum_list ys / real (length ys)))"
  by (simp add: series_mean_def dropna_the)

section \<open>Lemmas on the KPIs\<close>

lemma current_orders_card: "current_orders rows = card (order_id ` set rows)"
  by (simp add: current_orders_def series_nunique_def length_remdups_card_conv)

lemma previous_revenue_eq: "previous_revenue rows = current_revenue rows"
  by (cases rows) (simp_all add: previous_revenue_def current_revenue_def series_sum_def)

lemma previous_orders_eq: "previous_orders rows = current_orders rows"
  by (cases rows) (simp_all add: previous_orders_def current_orders_def series_nunique_def)

lemma previous_aov_eq: "previous_aov rows = current_aov rows"
  by (simp add: previous_aov_def current_aov_def previous_revenue_eq previous_orders_eq)

lemma length_category_ranking:
  "length (category_ranking top_n rows)
     = min top_n (card {c. \<exists>r \<in> set rows. product_category_name r = Some c})"
  by (simp add: category_ranking_def head_def sort_values_desc_def length_groupby_sum)

lemma category_ranking_top:
  assumes "(c, v) \<in> set (category_ranking top_n rows)"
    and "r \<in> set rows" "product_category_name r = Some c'"
    and "c' \<notin> fst ` set (category_ranking top_n rows)"
  shows "sum_list (map price (filter (\<lambda>r. product_category_name r = Some c') rows)) \<le> v"
proof -
  let ?g = "groupby_sum product_category_name price rows"
  let ?v' = "sum_list (map price (filter (\<lambda>r. product_category_name r = Some c') rows))"
  from assms(2,3) have "c' \<in> set (group_keys product_category_name rows)"
    by (auto simp: set_group_keys)
  then have "(c', ?v') \<in> set (sort_values_desc ?g)"
    by (auto simp: set_sort_values_desc groupby_sum_def group_rows_def series_sum_def)
  moreover from assms(4) have "(c', ?v') \<notin> set (head top_n (sort_values_desc ?g))"
    by (force simp: category_ranking_def)
  ultimately have "snd (c', ?v') \<le> snd (c, v)"
    using head_rest [OF sorted_sort_values_desc, of "(c, v)" top_n ?g "(c', ?v')"] assms(1)
    by (simp add: category_ranking_def)
  then show ?thesis by simp
qed

lemma severity_values:
  "severity ''1-3 days'' = 0" "severity ''4-7 days'' = 1"
  "severity ''8+ days'' = 2" "severity ''Unknown'' = 3"
  by (simp_all add: severity_def bucket_order_def)

lemma delivery_bucket_in_order: "delivery_bucket r \<in> set bucket_order"
  by (cases "delivery_days r")
    (simp_all add: delivery_bucket_def categorize_delivery_speed_def bucket_order_def)

lemma bucket_order_sorted: "sorted bucket_order" "distinct bucket_order"
  by (simp_all add: bucket_order_def)

lemma bucket_codes_sorted:
  "sorted (map (category_code bucket_order) (filter P bucket_order))"
  by (simp add: bucket_order_def)

lemma sort_remdups_filter:
  fixes L :: "'a::linorder list"
  assumes "set xs \<subseteq> set L" "sorted L" "distinct L"
  shows "sort (remdups xs) = filter (\<lambda>b. b \<in> set xs) L"
proof (rule sorted_distinct_set_unique)
  show "sorted (sort (remdups xs))" by simp
  show "distinct (sort (remdups xs))" by simp
  show "sorted (filter (\<lambda>b. b \<in> set xs) L)" using assms(2) by (rule sorted_wrt_filter)
  show "distinct (filter (\<lambda>b. b \<in> set xs) L)" using assms(3) by simp
  show "set (sort (remdups xs)) = set (filter (\<lambda>b. b \<in> set xs) L)"
    using assms(1) by auto
qed

lemma bucket_keys:
  "group_keys (\<lambda>r. Some (delivery_bucket r)) rows
     = filter (\<lambda>b. b \<in> delivery_bucket ` set rows) bucket_order"
proof -
  have "set (map delivery_bucket rows) \<subseteq> set bucket_order"
    using delivery_bucket_in_order by auto
  from sort_remdups_filter [OF this bucket_order_sorted]
  show ?thesis by (simp add: group_keys_def dropna_map_Some)
qed

lemma satisfaction_delivery_eq:
  "satisfaction_delivery rows =
     map (\<lambda>b. (b, series_mean (map review_score (filter (\<lambda>r. delivery_bucket r = b) rows))))
       (filter (\<lambda>b. b \<in> delivery_bucket ` set rows) bucket_order)"
proof -
  let ?g = "groupby_mean (\<lambda>r. Some (delivery_bucket r)) review_score rows"
  have "map (\<lambda>kv. category_code bucket_order (fst kv)) ?g
          = map (category_code bucket_order) (map fst ?g)"
    by simp
  also have "\<dots> = map (category_code bucket_order)
                     (filter (\<lambda>b. b \<in> delivery_bucket ` set rows) bucket_order)"
    by (simp only: groupby_mean_keys bucket_keys)
  finally have "sorted (map (\<lambda>kv. category_code bucket_order (fst kv)) ?g)"
    by (simp only: bucket_codes_sorted)
  then have "satisfaction_delivery rows = ?g"
    by (simp add: satisfaction_delivery_def sort_values_categorical_def sort_key_id_if_sorted)
  then show ?thesis
    by (simp add: groupby_mean_def group_rows_def bucket_keys)
qed

lemma satisfaction_rows_value:
  "satisfaction_delivery satisfaction_rows
     = [(''1-3 days'', NaN), (''8+ days'', Num (7 / 2)), (''Unknown'', Num 4)]"
  by (simp add: satisfaction_delivery_def sort_values_categorical_def groupby_mean_def
      group_keys_def group_rows_def series_mean_def delivery_bucket_def
      categorize_delivery_speed_def bucket_order_def satisfaction_rows_def fact_row_def)

text \<open>
  With no data in either period, \<^verbatim>\<open>main\<close> calls \<open>calculate_trend_percentage\<close> with NaN
  for both arguments, and the trend is NaN.
\<close>

lemma delivery_trend_no_data: "delivery_trend [] [] = Inr NaN"
  by (simp add: delivery_trend_def previous_delivery_def current_delivery_def series_mean_def
      calculate_trend_percentage_def)

section \<open>Lemmas on the formatting\<close>

lemma round_half_even_near: "\<bar>real_of_int (round_half_even y) - y\<bar> \<le> 1 / 2"
  unfolding round_half_even_def Let_def by (simp; linarith)

lemma format_fixed_0:
  "format_fixed 0 y = (if y < 0 then ''-'' else []) @ str_nat (nat (round_half_even \<bar>y\<bar>))"
  by (simp add: format_fixed_def Let_def)

lemma str_nat_digit: "n < 10 \<Longrightarrow> str_nat n = [digit_char n]"
  by (simp add: str_nat.simps)

lemma format_fixed_1:
  "format_fixed 1 y =
     (if y < 0 then ''-'' else []) @ str_nat (nat (round_half_even (\<bar>y\<bar> * 10)) div 10)
       @ ''.'' @ [digit_char (nat (round_half_even (\<bar>y\<bar> * 10)) mod 10)]"
  by (simp add: format_fixed_def Let_def str_nat_digit zfill_def)

lemma up_exp_bounds: "1 \<le> x \<Longrightarrow> 2 ^ up_exp x \<le> x \<and> x < 2 ^ Suc (up_exp x)"
proof (induction x rule: up_exp.induct)
  case (1 x)
  show ?case
  proof (cases "x < 2")
    case True
    with 1 show ?thesis by (simp add: up_exp.simps)
  next
    case False
    then have "1 \<le> x / 2" by simp
    with 1 False have "2 ^ up_exp (x / 2) \<le> x / 2 \<and> x / 2 < 2 ^ Suc (up_exp (x / 2))" by blast
    moreover from False have "up_exp x = Suc (up_exp (x / 2))" by (simp add: up_exp.simps)
    ultimately show ?thesis by simp
  qed
qed

lemma down_exp_bounds:
  "0 < x \<Longrightarrow> x < 1 \<Longrightarrow> 1 \<le> x * 2 ^ down_exp x \<and> x * 2 ^ down_exp x < 2"
proof (induction x rule: down_exp.induct)
  case (1 x)
  have step: "down_exp x = Suc (down_exp (2 * x))"
    using 1(2,3) by (simp add: down_exp.simps)
  show ?case
  proof (cases "2 * x < 1")
    case True
    with 1 have "1 \<le> 2 * x * 2 ^ down_exp (2 * x) \<and> 2 * x * 2 ^ down_exp (2 * x) < 2" by simp
    with step show ?thesis by (simp add: mult.assoc mult.left_commute)
  next
    case False
    then have "down_exp (2 * x) = 0" by (simp add: down_exp.simps)
    with step False 1(3) show ?thesis by simp
  qed
qed

lemma float_exponent_bounds:
  assumes "x \<noteq> 0"
  shows "pow2 (float_exponent x) \<le> \<bar>x\<bar> \<and> \<bar>x\<bar> < 2 * pow2 (float_exponent x)"
proof (cases "1 \<le> \<bar>x\<bar>")
  case True
  with up_exp_bounds [of "\<bar>x\<bar>"] show ?thesis
    by (simp add: float_exponent_def pow2_def)
next
  case False
  with assms have x: "0 < \<bar>x\<bar>" "\<bar>x\<bar> < 1" by simp_all
  let ?k = "down_exp \<bar>x\<bar>"
  from down_exp_bounds [OF x] have b: "1 \<le> \<bar>x\<bar> * 2 ^ ?k" "\<bar>x\<bar> * 2 ^ ?k < 2" by simp_all
  have pos: "(0::real) < 2 ^ ?k" by simp
  from b pos have "1 / 2 ^ ?k \<le> \<bar>x\<bar>" "\<bar>x\<bar> < 2 * (1 / 2 ^ ?k)"
    by (simp_all add: field_simps)
  moreover have "pow2 (float_exponent x) = 1 / 2 ^ ?k"
    using False by (simp add: float_exponent_def pow2_def)
  ultimately show ?thesis by simp
qed


lemma float_round_near: "\<bar>float_round x - x\<bar> \<le> \<bar>x\<bar> / 2 ^ 53"
proof (cases "x = 0")
  case True
  then show ?thesis by (simp add: float_round_def)
next
  case False
  define u where "u = pow2 (float_exponent x) / 2 ^ 52"
  from float_exponent_bounds [OF False] have p: "pow2 (float_exponent x) \<le> \<bar>x\<bar>" by simp
  have pos: "0 < pow2 (float_exponent x)" by (simp add: pow2_def)
  then have u: "0 < u" by (simp add: u_def)
  have "float_round x = real_of_int (round_half_even (x / u)) * u"
    using False unfolding float_round_def Let_def u_def by simp
  then have "float_round x - x = (real_of_int (round_half_even (x / u)) - x / u) * u"
    using u by (simp add: algebra_simps)
  then have "\<bar>float_round x - x\<bar> = \<bar>real_of_int (round_half_even (x / u)) - x / u\<bar> * u"
    using u by (simp add: abs_mult)
  also have "\<dots> \<le> 1 / 2 * u"
    using round_half_even_near [of "x / u"] u by (intro mult_right_mono) simp_all
  also have "\<dots> = pow2 (float_exponent x) / 2 ^ 53"
    by (simp add: u_def)
  also have "\<dots> \<le> \<bar>x\<bar> / 2 ^ 53"
    using p by (simp add: divide_right_mono)
  finally show ?thesis .
qed

lemmas format_eval = format_fixed_def round_half_even_def zfill_def digit_char_def
  str_nat.simps float_round_def float_exponent_def pow2_def up_exp.simps down_exp.simps

section \<open>Properties of the trend percentage\<close>

text \<open>
  Claim C1. For every pair of numbers, \<open>calculate_trend_percentage\<close> returns 0 when the
  previous value is 0, whatever the current value (NaN included); otherwise it returns
  \<open>(current - previous) / previous * 100\<close>, which is NaN as soon as one of the two is NaN;
  the trend from 100 to 150 is 50; and no input makes it raise.
\<close>

theorem calculate_trend_percentage_spec:
  "calculate_trend_percentage c (Num 0) = Inr (Num 0)
   \<and> (y \<noteq> 0 \<longrightarrow>
        calculate_trend_percentage (Num x) (Num y) = Inr (Num ((x - y) / y * 100))
        \<and> calculate_trend_percentage NaN (Num y) = Inr NaN)
   \<and> calculate_trend_percentage c NaN = Inr NaN
   \<and> calculate_trend_percentage (Num 150) (Num 100) = Inr (Num 50)
   \<and> (\<exists>r. calculate_trend_percentage c p = Inr r)"
proof -
  have zero: "calculate_trend_percentage c (Num 0) = Inr (Num 0)"
    by (simp add: calculate_trend_percentage_def)
  have formula: "calculate_trend_percentage (Num x) (Num y) = Inr (Num ((x - y) / y * 100))"
    if "y \<noteq> 0" for x y
    using that by (simp add: calculate_trend_percentage_def)
  have nan_cur: "calculate_trend_percentage NaN (Num y) = Inr NaN" if "y \<noteq> 0" for y
    using that by (simp add: calculate_trend_percentage_def)
  have nan_prev: "calculate_trend_percentage c NaN = Inr NaN" for c
    by (cases c) (simp_all add: calculate_trend_percentage_def)
  have total: "\<exists>r. calculate_trend_percentage c p = Inr r"
  proof (cases p)
    case (Num y)
    show ?thesis
    proof (cases "y = 0")
      case True
      with Num zero show ?thesis by simp
    next
      case False
      with Num formula nan_cur show ?thesis by (cases c) simp_all
    qed
  next
    case NaN
    with nan_prev show ?thesis by simp
  qed
  have example: "calculate_trend_percentage (Num 150) (Num 100) = Inr (Num 50)"
    using formula [of 100 150] by simp
  from zero formula nan_cur nan_prev total example show ?thesis by blast
qed

theorem calculate_trend_percentage_spec_witness:
  "calculate_trend_percentage NaN (Num 0) = Inr (Num 0)
   \<and> calculate_trend_percentage (Num 120) (Num 80) = Inr (Num 50)
   \<and> calculate_trend_percentage NaN (Num 80) = Inr NaN
   \<and> calculate_trend_percentage (Num 3) NaN = Inr NaN"
  using calculate_trend_percentage_spec [of NaN 80 120 "Num 3"]
    calculate_trend_percentage_spec [of "Num 3" 80 120 NaN]
  by simp

section \<open>Properties of the KPIs\<close>

text \<open>
  Claim C2. The average order value is the revenue divided by the number of distinct
  order ids when that number is positive, and 0 when it is 0 (as for the empty table);
  it is always a number and the division never raises. The previous period's value is
  computed the same way.
\<close>

theorem current_aov_spec:
  "current_orders rows = card (order_id ` set rows)
   \<and> (0 < current_orders rows \<longrightarrow>
        current_aov rows = Inr (Num (current_revenue rows / real (current_orders rows))))
   \<and> (current_orders rows = 0 \<longrightarrow> current_aov rows = Inr (Num 0))
   \<and> (\<exists>v. current_aov rows = Inr (Num v))
   \<and> current_aov [] = Inr (Num 0)
   \<and> previous_aov rows = current_aov rows"
proof -
  have pos: "current_aov rows = Inr (Num (current_revenue rows / real (current_orders rows)))"
    if "0 < current_orders rows"
    using that by (simp add: current_aov_def)
  have zero: "current_aov rows = Inr (Num 0)" if "current_orders rows = 0"
    using that by (simp add: current_aov_def)
  have total: "\<exists>v. current_aov rows = Inr (Num v)"
    using pos zero by (cases "current_orders rows = 0") auto
  have empty: "current_aov [] = Inr (Num 0)"
    by (simp add: current_aov_def current_orders_def series_nunique_def)
  from current_orders_card pos zero total empty previous_aov_eq show ?thesis by blast
qed

theorem current_aov_spec_witness:
  "current_orders scenario_A = 3 \<and> current_aov scenario_A = Inr (Num 20)
   \<and> current_orders [] = 0 \<and> current_aov [] = Inr (Num 0)"
proof -
  have n: "current_orders scenario_A = 3"
    by (simp add: current_orders_def series_nunique_def scenario_defs)
  have r: "current_revenue scenario_A = 60"
    by (simp add: current_revenue_def series_sum_def scenario_defs)
  have e: "current_orders [] = 0"
    by (simp add: current_orders_def series_nunique_def)
  from n r e current_aov_spec [of scenario_A] current_aov_spec [of "[]"] show ?thesis
    by simp
qed

section \<open>Properties of the delivery buckets\<close>

text \<open>
  Claim C3. \<open>categorize_delivery_speed\<close> is total on the reals plus null: null is
  "Unknown", at most 3 days (negative values included) is "1-3 days", more than 3 and at
  most 7 is "4-7 days", more than 7 is "8+ days"; every result is one of the four
  buckets, and for non-negative days the severity of the bucket does not decrease when
  the days grow.
\<close>

theorem categorize_delivery_speed_spec:
  "categorize_delivery_speed None = ''Unknown''
   \<and> (d \<le> 3 \<longrightarrow> categorize_delivery_speed (Some d) = ''1-3 days'')
   \<and> (3 < d \<and> d \<le> 7 \<longrightarrow> categorize_delivery_speed (Some d) = ''4-7 days'')
   \<and> (7 < d \<longrightarrow> categorize_delivery_speed (Some d) = ''8+ days'')
   \<and> categorize_delivery_speed days \<in> set bucket_order
   \<and> (0 \<le> d \<and> d \<le> d' \<longrightarrow>
        severity (categorize_delivery_speed (Some d))
          \<le> severity (categorize_delivery_speed (Some d')))"
proof -
  have total: "categorize_delivery_speed days \<in> set bucket_order"
    by (cases days) (simp_all add: categorize_delivery_speed_def bucket_order_def)
  have mono: "severity (categorize_delivery_speed (Some d))
          \<le> severity (categorize_delivery_speed (Some d'))" if "d \<le> d'"
    using that by (simp add: categorize_delivery_speed_def severity_values)
  from total mono show ?thesis
    by (simp add: categorize_delivery_speed_def)
qed

theorem categorize_delivery_speed_spec_witness:
  "categorize_delivery_speed (Some (- 2)) = ''1-3 days''
   \<and> categorize_delivery_speed (Some 3) = ''1-3 days''
   \<and> categorize_delivery_speed (Some 5) = ''4-7 days''
   \<and> categorize_delivery_speed (Some 7) = ''4-7 days''
   \<and> categorize_delivery_speed (Some 10) = ''8+ days''
   \<and> severity (categorize_delivery_speed (Some 2)) \<le> severity (categorize_delivery_speed (Some 8))"
proof -
  have a: "categorize_delivery_speed (Some (- 2)) = ''1-3 days''"
    using categorize_delivery_speed_spec [of "- 2" None 0] by simp
  have b: "categorize_delivery_speed (Some 3) = ''1-3 days''"
    using categorize_delivery_speed_spec [of 3 None 3] by simp
  have c: "categorize_delivery_speed (Some 5) = ''4-7 days''"
    using categorize_delivery_speed_spec [of 5 None 5] by simp
  have d: "categorize_delivery_speed (Some 7) = ''4-7 days''"
    using categorize_delivery_speed_spec [of 7 None 7] by simp
  have e: "categorize_delivery_speed (Some 10) = ''8+ days''"
    using categorize_delivery_speed_spec [of 10 None 10] by simp
  have m: "severity (categorize_delivery_speed (Some 2))
             \<le> severity (categorize_delivery_speed (Some 8))"
    using categorize_delivery_speed_spec [of 2 None 8] by linarith
  from a b c d e m show ?thesis by blast
qed

text \<open>
  Claim C4, as stated: a bucket without any scored row is omitted. It fails on a single
  item delivered in one day and never reviewed: its bucket is returned, with NaN as
  average.
\<close>

theorem satisfaction_delivery_omits_counterexample:
  "satisfaction_delivery
     [\<lparr>order_id = ''o1'',
       order_purchase_timestamp = \<lparr>ts_year = 2018, ts_month = 1, ts_day = 1, ts_seconds = 0\<rparr>,
       price = 10, product_category_name = None, customer_state = None,
       delivery_days = Some 1, review_score = None\<rparr>]
   = [(''1-3 days'', NaN)]"
  by (simp add: satisfaction_delivery_def sort_values_categorical_def groupby_mean_def
      group_keys_def group_rows_def series_mean_def delivery_bucket_def
      categorize_delivery_speed_def)

text \<open>
  Claim C4, amended. \<open>satisfaction_delivery\<close> has one entry per delivery bucket that
  holds at least one row, in the order of \<open>bucket_order\<close>; the entry's value is the mean
  of the non-null review scores of the bucket's rows, and NaN when the bucket has no
  scored row.
\<close>

theorem satisfaction_delivery_spec:
  "map fst (satisfaction_delivery rows)
     = filter (\<lambda>b. \<exists>r \<in> set rows. delivery_bucket r = b) bucket_order
   \<and> (\<forall>(b, a) \<in> set (satisfaction_delivery rows).
         let scores = map the (filter (\<lambda>s. s \<noteq> None)
                        (map review_score (filter (\<lambda>r. delivery_bucket r = b) rows)))
         in a = (if scores = [] then NaN else Num (sum_list scores / real (length scores))))"
proof -
  have "(\<lambda>b. b \<in> delivery_bucket ` set rows) = (\<lambda>b. \<exists>r \<in> set rows. delivery_bucket r = b)"
    by auto
  then have 1: "map fst (satisfaction_delivery rows)
     = filter (\<lambda>b. \<exists>r \<in> set rows. delivery_bucket r = b) bucket_order"
    by (simp add: satisfaction_delivery_eq comp_def)
  have 2: "\<forall>(b, a) \<in> set (satisfaction_delivery rows).
         let scores = map the (filter (\<lambda>s. s \<noteq> None)
                        (map review_score (filter (\<lambda>r. delivery_bucket r = b) rows)))
         in a = (if scores = [] then NaN else Num (sum_list scores / real (length scores)))"
    by (auto simp: satisfaction_delivery_eq series_mean_eq Let_def)
  from 1 2 show ?thesis by blast
qed

theorem satisfaction_delivery_spec_witness:
  "map fst (satisfaction_delivery satisfaction_rows) = [''1-3 days'', ''8+ days'', ''Unknown'']
   \<and> satisfaction_delivery satisfaction_rows
       = [(''1-3 days'', NaN), (''8+ days'', Num (7 / 2)), (''Unknown'', Num 4)]"
  using satisfaction_delivery_spec [of satisfaction_rows] satisfaction_rows_value
  by simp

section \<open>Properties of the grouped series\<close>

text \<open>
  Claim C5. The category ranking is sorted by revenue, largest first, has at most
  \<open>top_n\<close> entries (as many as there are categories, when these are fewer) and no
  category twice; each entry is a non-null category of some row with the sum of the
  prices of that category's rows (rows without category count nowhere); when there are
  at most \<open>top_n\<close> categories all of them are listed, and a category that is left out
  has no more revenue than any listed one; the dashboard uses \<open>top_n = 10\<close>, and the
  rows of scenario A give A with 40, then B with 20.
\<close>

theorem category_ranking_spec:
  "sorted_wrt (\<lambda>a b. snd b \<le> snd a) (category_ranking top_n rows)
   \<and> length (category_ranking top_n rows) \<le> top_n
   \<and> distinct (map fst (category_ranking top_n rows))
   \<and> (\<forall>(c, v) \<in> set (category_ranking top_n rows).
         (\<exists>r \<in> set rows. product_category_name r = Some c)
         \<and> v = sum_list (map price (filter (\<lambda>r. product_category_name r = Some c) rows)))
   \<and> length (category_ranking top_n rows)
       = min top_n (card {c. \<exists>r \<in> set rows. product_category_name r = Some c})
   \<and> (card {c. \<exists>r \<in> set rows. product_category_name r = Some c} \<le> top_n \<longrightarrow>
        fst ` set (category_ranking top_n rows)
          = {c. \<exists>r \<in> set rows. product_category_name r = Some c})
   \<and> (\<forall>(c, v) \<in> set (category_ranking top_n rows). \<forall>r \<in> set rows. \<forall>c'.
         product_category_name r = Some c' \<and> c' \<notin> fst ` set (category_ranking top_n rows) \<longrightarrow>
         sum_list (map price (filter (\<lambda>r. product_category_name r = Some c') rows)) \<le> v)
   \<and> category_revenue rows = category_ranking 10 rows
   \<and> (map (\<lambda>r. (price r, product_category_name r)) rows
         = [(10, Some ''A''), (20, Some ''B''), (30, Some ''A'')] \<longrightarrow>
        category_revenue rows = [(''A'', 40), (''B'', 20)])"
proof -
  let ?g = "groupby_sum product_category_name price rows"
  let ?cats = "{c. \<exists>r \<in> set rows. product_category_name r = Some c}"
  have 1: "sorted_wrt (\<lambda>a b. snd b \<le> snd a) (category_ranking top_n rows)"
    by (simp add: category_ranking_def sorted_wrt_head sorted_sort_values_desc)
  have 2: "length (category_ranking top_n rows) \<le> top_n"
    by (simp add: category_ranking_def length_head)
  have 3: "distinct (map fst (category_ranking top_n rows))"
    by (simp add: category_ranking_def distinct_map_head distinct_sort_values_desc
        groupby_sum_keys distinct_group_keys)
  have sub: "set (category_ranking top_n rows) \<subseteq> set ?g"
    using set_head [of top_n "sort_values_desc ?g"]
    by (simp add: category_ranking_def set_sort_values_desc)
  have 4: "(\<exists>r \<in> set rows. product_category_name r = Some c)
         \<and> v = sum_list (map price (filter (\<lambda>r. product_category_name r = Some c) rows))"
    if "(c, v) \<in> set (category_ranking top_n rows)" for c v
  proof -
    from that sub have in_g: "(c, v) \<in> set ?g" by blast
    then have "c \<in> set (map fst ?g)" by force
    then have "c \<in> ?cats"
      by (simp add: groupby_sum_keys set_group_keys)
    with groupby_sum_entry [OF in_g] show ?thesis by simp
  qed
  have 5: "fst ` set (category_ranking top_n rows) = ?cats" if "card ?cats \<le> top_n"
  proof -
    have "length ?g = card ?cats"
      using distinct_card [OF distinct_group_keys [of product_category_name rows]]
      by (simp add: groupby_sum_def set_group_keys)
    with that have "category_ranking top_n rows = sort_values_desc ?g"
      by (simp add: category_ranking_def head_all sort_values_desc_def)
    then have "fst ` set (category_ranking top_n rows) = set (map fst ?g)"
      by (simp add: set_sort_values_desc)
    then show ?thesis
      by (simp add: groupby_sum_keys set_group_keys)
  qed
  have 6: "category_revenue rows = category_ranking 10 rows"
    by (simp add: category_revenue_def)
  have 7: "category_revenue rows = [(''A'', 40), (''B'', 20)]"
    if "map (\<lambda>r. (price r, product_category_name r)) rows
         = [(10, Some ''A''), (20, Some ''B''), (30, Some ''A'')]"
  proof -
    from that obtain a b c where rows: "rows = [a, b, c]"
      and a: "price a = 10" "product_category_name a = Some ''A''"
      and b: "price b = 20" "product_category_name b = Some ''B''"
      and c: "price c = 30" "product_category_name c = Some ''A''"
      by (auto simp: map_eq_Cons_conv)
    show ?thesis
      unfolding rows
      by (simp add: a b c category_revenue_def category_ranking_def head_def
          sort_values_desc_def groupby_sum_def group_keys_def group_rows_def series_sum_def)
  qed
  note 8 = length_category_ranking [of top_n rows]
  have 9: "\<forall>(c, v) \<in> set (category_ranking top_n rows). \<forall>r \<in> set rows. \<forall>c'.
         product_category_name r = Some c' \<and> c' \<notin> fst ` set (category_ranking top_n rows) \<longrightarrow>
         sum_list (map price (filter (\<lambda>r. product_category_name r = Some c') rows)) \<le> v"
    using category_ranking_top [of _ _ top_n rows] by blast
  from 4 have all4: "\<forall>(c, v) \<in> set (category_ranking top_n rows).
         (\<exists>r \<in> set rows. product_category_name r = Some c)
         \<and> v = sum_list (map price (filter (\<lambda>r. product_category_name r = Some c) rows))"
    by blast
  from 5 have imp5: "card ?cats \<le> top_n \<longrightarrow> fst ` set (category_ranking top_n rows) = ?cats"
    by blast
  from 7 have imp7: "map (\<lambda>r. (price r, product_category_name r)) rows
         = [(10, Some ''A''), (20, Some ''B''), (30, Some ''A'')] \<longrightarrow>
        category_revenue rows = [(''A'', 40), (''B'', 20)]"
    by blast
  show ?thesis
    by (intro conjI) (fact 1 2 3 all4 imp5 6 imp7 8 9)+
qed

theorem category_ranking_spec_witness:
  "category_revenue scenario_A = [(''A'', 40), (''B'', 20)]
   \<and> category_ranking 10 scenario_A = [(''A'', 40), (''B'', 20)]
   \<and> length (category_ranking 1 scenario_A) \<le> 1"
  using category_ranking_spec [of 10 scenario_A] category_ranking_spec [of 1 scenario_A]
  by (simp add: scenario_defs)

text \<open>
  Claim C6. The revenue is the sum of the prices of all rows, 0 for no rows, and 60 for
  rows with the prices 10, 20 and 30.
\<close>

theorem current_revenue_sum:
  "current_revenue rows = (\<Sum>i<length rows. price (rows ! i))
   \<and> current_revenue [] = 0
   \<and> (map price rows = [10, 20, 30] \<longrightarrow> current_revenue rows = 60)"
proof -
  have "current_revenue rows = sum_list (map price rows)"
    by (simp add: current_revenue_def series_sum_def)
  also have "\<dots> = (\<Sum>i<length rows. price (rows ! i))"
    by (simp add: sum_list_sum_nth atLeast0LessThan)
  finally have 1: "current_revenue rows = (\<Sum>i<length rows. price (rows ! i))" .
  have 2: "current_revenue [] = 0"
    by (simp add: current_revenue_def series_sum_def)
  have 3: "current_revenue rows = 60" if "map price rows = [10, 20, 30]"
    using that by (simp add: current_revenue_def series_sum_def)
  from 1 2 3 show ?thesis by blast
qed

theorem current_revenue_sum_witness: "current_revenue scenario_A = 60"
  using current_revenue_sum [of scenario_A] by (simp add: scenario_defs)

text \<open>
  Claim C7. The average delivery time is the mean of the non-null delivery days; it is
  NaN, and not zero, when no row has one; for the delivery days 1, 5, 10 and null it is
  16 / 3, that is 5.33 to two decimals.
\<close>

theorem current_delivery_spec:
  "((\<exists>r \<in> set rows. delivery_days r \<noteq> None) \<longrightarrow>
      current_delivery rows =
        Num (sum_list (map the (filter (\<lambda>d. d \<noteq> None) (map delivery_days rows)))
             / real (length (filter (\<lambda>d. d \<noteq> None) (map delivery_days rows)))))
   \<and> ((\<forall>r \<in> set rows. delivery_days r = None) \<longrightarrow>
        current_delivery rows = NaN \<and> current_delivery rows \<noteq> Num 0)
   \<and> (map delivery_days rows = [Some 1, Some 5, Some 10, None] \<longrightarrow>
        current_delivery rows = Num (16 / 3))"
proof -
  let ?ds = "filter (\<lambda>d. d \<noteq> None) (map delivery_days rows)"
  have some: "current_delivery rows = Num (sum_list (map the ?ds) / real (length ?ds))"
    if "\<exists>r \<in> set rows. delivery_days r \<noteq> None"
  proof -
    from that have "?ds \<noteq> []"
      by (auto simp: filter_empty_conv)
    then show ?thesis
      by (simp add: current_delivery_def series_mean_eq Let_def)
  qed
  have none: "current_delivery rows = NaN" if "\<forall>r \<in> set rows. delivery_days r = None"
  proof -
    from that have "?ds = []"
      by (auto simp: filter_empty_conv)
    then show ?thesis
      by (simp add: current_delivery_def series_mean_eq Let_def)
  qed
  have ex: "current_delivery rows = Num (16 / 3)"
    if "map delivery_days rows = [Some 1, Some 5, Some 10, None]"
    using that by (simp add: current_delivery_def series_mean_def)
  from some none ex show ?thesis by auto
qed

theorem current_delivery_spec_witness:
  "current_delivery scenario_B = Num (16 / 3)
   \<and> current_delivery [fact_row ''o1'' 2018 1 10 None None None] = NaN
   \<and> current_delivery [] = NaN"
  using current_delivery_spec [of scenario_B]
    current_delivery_spec [of "[fact_row ''o1'' 2018 1 10 None None None]"]
    current_delivery_spec [of "[]"]
  by (simp add: scenario_defs)

text \<open>
  Claim C8. The monthly series has exactly one entry per calendar month in which some
  row was bought and none for any other month, in chronological order; the entry's
  value is the sum of the prices of the month's rows.
\<close>

theorem current_monthly_spec:
  "sorted_wrt period_before (map fst (current_monthly rows))
   \<and> distinct (map fst (current_monthly rows))
   \<and> set (map fst (current_monthly rows))
       = (\<lambda>r. to_period_M (order_purchase_timestamp r)) ` set rows
   \<and> (\<forall>(p, v) \<in> set (current_monthly rows).
         v = sum_list (map price
               (filter (\<lambda>r. to_period_M (order_purchase_timestamp r) = p) rows)))"
proof -
  let ?key = "\<lambda>r. Some (to_period_M (order_purchase_timestamp r))"
  have keys: "map fst (current_monthly rows) = group_keys ?key rows"
    by (simp add: current_monthly_def groupby_sum_keys)
  have 1: "sorted_wrt period_before (map fst (current_monthly rows))"
    unfolding keys by (rule sorted_period_before [OF sorted_group_keys distinct_group_keys])
  have 2: "distinct (map fst (current_monthly rows))"
    unfolding keys by (rule distinct_group_keys)
  have 3: "set (map fst (current_monthly rows))
       = (\<lambda>r. to_period_M (order_purchase_timestamp r)) ` set rows"
    unfolding keys by (force simp: set_group_keys)
  have 4: "v = sum_list (map price
               (filter (\<lambda>r. to_period_M (order_purchase_timestamp r) = p) rows))"
    if "(p, v) \<in> set (current_monthly rows)" for p v
    using groupby_sum_entry [OF that [unfolded current_monthly_def]] by simp
  from 1 2 3 4 show ?thesis by blast
qed

theorem current_monthly_spec_witness:
  "current_monthly monthly_rows = [((2017, 12), 5), ((2018, 1), 10), ((2018, 3), 50)]
   \<and> sorted_wrt period_before (map fst (current_monthly monthly_rows))
   \<and> (2018, 2) \<notin> set (map fst (current_monthly monthly_rows))"
proof -
  have v: "current_monthly monthly_rows = [((2017, 12), 5), ((2018, 1), 10), ((2018, 3), 50)]"
    by (simp add: current_monthly_def groupby_sum_def group_keys_def group_rows_def
        series_sum_def to_period_M_def monthly_rows_def fact_row_def less_eq_prod_def)
  have m: "(2018, 2) \<notin> (\<lambda>r. to_period_M (order_purchase_timestamp r)) ` set monthly_rows"
    by (simp add: to_period_M_def monthly_rows_def fact_row_def)
  from v m current_monthly_spec [of monthly_rows] show ?thesis by simp
qed

section \<open>The trend of an unchanged value\<close>

text \<open>
  Claim C9, as stated: the trend of an unchanged value is 0 for every value. It fails
  at NaN, which is equal to nothing: the guard does not fire and the formula gives NaN.
\<close>

theorem calculate_trend_percentage_same_counterexample:
  "calculate_trend_percentage NaN NaN \<noteq> Inr (Num 0)"
  by (simp add: calculate_trend_percentage_def)

text \<open>
  Claim C9, amended: for every finite number \<open>v\<close> (not NaN), the trend from
  \<open>v\<close> to \<open>v\<close> is 0: by the guard when \<open>v = 0\<close>, by the formula otherwise.
\<close>

theorem calculate_trend_percentage_same:
  "calculate_trend_percentage (Num v) (Num v) = Inr (Num 0)"
  by (simp add: calculate_trend_percentage_def)

section \<open>Properties of the currency format\<close>

text \<open>
  Claim C10. \<open>format_currency\<close> never raises and chooses by the thresholds in order:
  from a million on, the value divided by a million (the quotient as a double) with one
  decimal and the suffix M; from a thousand on and below a million, the value divided
  by a thousand (as a double), rounded to an integer, with the suffix K; below a
  thousand, negative values included, the value rounded to an integer, with no suffix;
  each after a dollar sign. Rounding to an integer moves a number by at most one half,
  and the double quotient differs from the exact one by at most its \<open>2 ^ 53\<close>th part.
\<close>

theorem format_currency_spec:
  "(1000000 \<le> v \<longrightarrow>
      format_currency (Num v)
        = Inr (''$'' @ format_fixed 1 (float_round (v / 1000000)) @ ''M''))
   \<and> (1000 \<le> v \<and> v < 1000000 \<longrightarrow>
        format_currency (Num v)
          = Inr (''$'' @ format_fixed 0 (float_round (v / 1000)) @ ''K''))
   \<and> (v < 1000 \<longrightarrow> format_currency (Num v) = Inr (''$'' @ format_fixed 0 v))
   \<and> format_currency NaN = Inr ''$nan''
   \<and> (\<exists>s. format_currency x = Inr s)
   \<and> format_fixed 0 y = (if y < 0 then ''-'' else []) @ str_nat (nat (round_half_even \<bar>y\<bar>))
   \<and> format_fixed 1 y =
       (if y < 0 then ''-'' else []) @ str_nat (nat (round_half_even (\<bar>y\<bar> * 10)) div 10)
         @ ''.'' @ [digit_char (nat (round_half_even (\<bar>y\<bar> * 10)) mod 10)]
   \<and> \<bar>real_of_int (round_half_even y) - y\<bar> \<le> 1 / 2
   \<and> \<bar>float_round y - y\<bar> \<le> \<bar>y\<bar> / 2 ^ 53"
proof -
  have m: "format_currency (Num v)
             = Inr (''$'' @ format_fixed 1 (float_round (v / 1000000)) @ ''M'')"
    if "1000000 \<le> v" for v
    using that by (simp add: format_currency_def)
  have k: "format_currency (Num v)
             = Inr (''$'' @ format_fixed 0 (float_round (v / 1000)) @ ''K'')"
    if "1000 \<le> v" "v < 1000000" for v
    using that by (simp add: format_currency_def)
  have u: "format_currency (Num v) = Inr (''$'' @ format_fixed 0 v)" if "v < 1000" for v
    using that by (simp add: format_currency_def)
  have n: "format_currency NaN = Inr ''$nan''"
    by (simp add: format_currency_def)
  have total: "\<exists>s. format_currency x = Inr s"
  proof (cases x)
    case (Num w)
    consider "1000000 \<le> w" | "1000 \<le> w" "w < 1000000" | "w < 1000" by linarith
    then show ?thesis using Num m k u by cases simp_all
  next
    case NaN
    with n show ?thesis by simp
  qed
  from m k u n total format_fixed_0 format_fixed_1 round_half_even_near float_round_near
  show ?thesis by blast
qed

theorem format_currency_spec_witness:
  "format_currency (Num 1234567) = Inr ''$1.2M''
   \<and> format_currency (Num 1050000) = Inr ''$1.1M''
   \<and> format_currency (Num 1150000) = Inr ''$1.1M''
   \<and> format_currency (Num 15000) = Inr ''$15K''
   \<and> format_currency (Num 2500) = Inr ''$2K''
   \<and> format_currency (Num 999.5) = Inr ''$1000''
   \<and> format_currency (Num (- 5.5)) = Inr ''$-6''"
proof -
  have a: "format_fixed 1 (float_round (1234567 / 1000000)) = ''1.2''"
    by (simp add: format_eval)
  have b: "format_fixed 1 (float_round (1050000 / 1000000)) = ''1.1''"
    by (simp add: format_eval)
  have c: "format_fixed 1 (float_round (1150000 / 1000000)) = ''1.1''"
    by (simp add: format_eval)
  have d: "format_fixed 0 (float_round (15000 / 1000)) = ''15''"
    by (simp add: format_eval)
  have e: "format_fixed 0 (float_round (2500 / 1000)) = ''2''"
    by (simp add: format_eval)
  have f: "format_fixed 0 999.5 = ''1000''"
    by (simp add: format_eval)
  have g: "format_fixed 0 (- 5.5) = ''-6''"
    by (simp add: format_eval)
  have 1: "format_currency (Num 1234567) = Inr ''$1.2M''"
    using format_currency_spec [of 1234567 NaN 0] a by simp
  have 2: "format_currency (Num 1050000) = Inr ''$1.1M''"
    using format_currency_spec [of 1050000 NaN 0] b by simp
  have 3: "format_currency (Num 1150000) = Inr ''$1.1M''"
    using format_currency_spec [of 1150000 NaN 0] c by simp
  have 4: "format_currency (Num 15000) = Inr ''$15K''"
    using format_currency_spec [of 15000 NaN 0] d by simp
  have 5: "format_currency (Num 2500) = Inr ''$2K''"
    using format_currency_spec [of 2500 NaN 0] e by simp
  have 6: "format_currency (Num 999.5) = Inr ''$1000''"
    using format_currency_spec [of "999.5" NaN 0] f by simp
  have 7: "format_currency (Num (- 5.5)) = Inr ''$-6''"
    using format_currency_spec [of "- 5.5" NaN 0] g by simp
  from 1 2 3 4 5 6 7 show ?thesis by blast
qed

end
